theory Spec2Isabelle
  imports Complex_Main "HOL-Library.Log_Nat" "HOL-Library.AList" "HOL-Library.Multiset"
begin

section \<open>Python floats\<close>

text \<open>
  The weights of \<^verbatim>\<open>app.py\<close> are Python floats, that is IEEE 754 binary64 numbers, and
  every \<^verbatim>\<open>+\<close>, \<^verbatim>\<open>/\<close> and \<^verbatim>\<open>*\<close> on them rounds its exact result to the nearest
  binary64 number, ties to the even significand.  A float is modelled by the rational
  number it denotes; \<open>fl\<close> is the rounding to 53 significant bits.  The exponent range
  is taken unbounded: for the compiled-in table every intermediate value is 0 or lies
  between 0.1 and 101, and no value used below is under 1e-17 in magnitude unless it is
  0, all far from overflow and from the subnormal range.
\<close>

type_synonym pyfloat = rat

text \<open>The binary exponent \<open>e\<close> of a positive rational: \<open>2 powi e \<le> x < 2 powi (e + 1)\<close>.\<close>

definition binexp :: "rat \<Rightarrow> int" where
  "binexp x = (let (a, b) = quotient_of x; k = bitlen a - bitlen b
               in if 2 powi k \<le> x then k else k - 1)"

definition round_half_even :: "rat \<Rightarrow> int" where
  "round_half_even x =
     (let f = \<lfloor>x\<rfloor>; r = x - of_int f
      in if r < 1 / 2 then f
         else if 1 / 2 < r then f + 1
         else if even f then f else f + 1)"

definition fl :: "rat \<Rightarrow> pyfloat" where
  "fl x = (if x = 0 then 0
           else let u = 2 powi (binexp \<bar>x\<bar> - 52)
                in sgn x * of_int (round_half_even (\<bar>x\<bar> / u)) * u)"

text \<open>A decimal literal such as \<^verbatim>\<open>0.95\<close> denotes the float nearest to it.\<close>

definition float_literal :: "rat \<Rightarrow> pyfloat" where
  "float_literal d = fl d"

definition float_add :: "pyfloat \<Rightarrow> pyfloat \<Rightarrow> pyfloat" where
  "float_add a b = fl (a + b)"

definition float_mul :: "pyfloat \<Rightarrow> pyfloat \<Rightarrow> pyfloat" where
  "float_mul a b = fl (a * b)"

datatype py_error = ZeroDivisionError | KeyError | ValueError

text \<open>\<^verbatim>\<open>a / b\<close> raises \<^verbatim>\<open>ZeroDivisionError\<close> on a zero divisor.\<close>

definition float_truediv :: "pyfloat \<Rightarrow> pyfloat \<Rightarrow> py_error + pyfloat" where
  "float_truediv a b = (if b = 0 then Inl ZeroDivisionError else Inr (fl (a / b)))"

text \<open>The builtin \<^verbatim>\<open>min(a, b)\<close> returns \<open>b\<close> when \<open>b < a\<close> and \<open>a\<close> otherwise.\<close>

definition py_min :: "pyfloat \<Rightarrow> pyfloat \<Rightarrow> pyfloat" where
  "py_min a b = (if b < a then b else a)"

section \<open>Data model\<close>

text \<open>
  A Python \<^verbatim>\<open>dict\<close> keeps its keys in insertion order and the code iterates over
  \<^verbatim>\<open>.items()\<close>, \<^verbatim>\<open>.values()\<close> and \<^verbatim>\<open>.keys()\<close>, so a dict is an association list with
  distinct keys.
\<close>

type_synonym symptom = string
type_synonym weights = "(symptom \<times> pyfloat) list"
type_synonym profiles = "(string \<times> weights) list"

definition BODY_PART_SYMPTOMS :: "(string \<times> symptom list) list" where
  "BODY_PART_SYMPTOMS =
    [(''Head/Neck'',
        [''Severe headache'', ''Dizziness'', ''Blurred vision'', ''Facial numbness'',
         ''Sore throat'']),
     (''Chest/Back'',
        [''Shortness of breath'', ''Chest pain'', ''Persistent cough'',
         ''Heart palpitations'', ''Upper back pain'']),
     (''Abdomen/Pelvis'',
        [''Sharp stomach pain'', ''Nausea/Vomiting'', ''Diarrhea'', ''Constipation'',
         ''Bloating'', ''Pelvic pain'']),
     (''Joints/Limbs'',
        [''Joint swelling'', ''Muscle weakness'', ''Numbness in limbs'', ''Severe cramping'',
         ''Foot tingling'']),
     (''Systemic'',
        [''Fever'', ''Fatigue'', ''Unexplained weight loss'', ''Night sweats''])]"

definition Migraine :: weights where
  "Migraine =
    [(''Severe headache'', float_literal (95 / 100)),
     (''Blurred vision'', float_literal (6 / 10)),
     (''Dizziness'', float_literal (4 / 10))]"

definition Pneumonia :: weights where
  "Pneumonia =
    [(''Persistent cough'', float_literal (9 / 10)),
     (''Shortness of breath'', float_literal (8 / 10)),
     (''Fever'', float_literal (7 / 10))]"

definition Irritable_Bowel_Syndrome :: weights where
  "Irritable_Bowel_Syndrome =
    [(''Sharp stomach pain'', float_literal (7 / 10)),
     (''Bloating'', float_literal (9 / 10)),
     (''Constipation'', float_literal (5 / 10))]"

definition Anxiety_Disorder :: weights where
  "Anxiety_Disorder =
    [(''Heart palpitations'', float_literal (8 / 10)),
     (''Shortness of breath'', float_literal (5 / 10)),
     (''Dizziness'', float_literal (5 / 10)),
     (''Fatigue'', float_literal (6 / 10))]"

definition Rheumatoid_Arthritis :: weights where
  "Rheumatoid_Arthritis =
    [(''Joint swelling'', float_literal (9 / 10)),
     (''Joint stiffness'', float_literal (8 / 10)),
     (''Fatigue'', float_literal (5 / 10))]"

definition DISEASE_PROFILES :: profiles where
  "DISEASE_PROFILES =
    [(''Migraine'', Migraine),
     (''Pneumonia'', Pneumonia),
     (''Irritable Bowel Syndrome (IBS)'', Irritable_Bowel_Syndrome),
     (''Anxiety Disorder'', Anxiety_Disorder),
     (''Rheumatoid Arthritis'', Rheumatoid_Arthritis)]"

section \<open>The scoring function\<close>

text \<open>\<^verbatim>\<open>symptom_weights[symptom]\<close> raises \<^verbatim>\<open>KeyError\<close> on a missing key.\<close>

definition dict_getitem :: "weights \<Rightarrow> symptom \<Rightarrow> py_error + pyfloat" where
  "dict_getitem symptom_weights symptom =
     (case map_of symptom_weights symptom of
        None \<Rightarrow> Inl KeyError
      | Some w \<Rightarrow> Inr w)"

text \<open>
  The first inner loop, lines 44 to 46.  \<open>selected_symptoms\<close> is a Python \<^verbatim>\<open>set\<close>;
  the list is the set in the order its iteration yields, which for strings changes
  from one process to the next, so a property of a set has to hold for every
  arrangement of that set as a duplicate-free list.
\<close>

fun match_loop :: "weights \<Rightarrow> symptom list \<Rightarrow> pyfloat \<Rightarrow> py_error + pyfloat" where
  "match_loop symptom_weights [] match_score = Inr match_score"
| "match_loop symptom_weights (symptom # rest) match_score =
     (if symptom \<in> fst ` set symptom_weights
      then (case dict_getitem symptom_weights symptom of
              Inl e \<Rightarrow> Inl e
            | Inr w \<Rightarrow> match_loop symptom_weights rest (float_add match_score w))
      else match_loop symptom_weights rest match_score)"

text \<open>The second inner loop, lines 49 and 50.\<close>

fun max_loop :: "pyfloat list \<Rightarrow> pyfloat \<Rightarrow> pyfloat" where
  "max_loop [] max_possible_score = max_possible_score"
| "max_loop (weight # rest) max_possible_score =
     max_loop rest (float_add max_possible_score weight)"

definition max_possible_score :: "weights \<Rightarrow> pyfloat" where
  "max_possible_score symptom_weights = max_loop (map snd symptom_weights) 0"

text \<open>
  One round of the outer loop, lines 40 to 55: \<open>None\<close> when the guard
  \<^verbatim>\<open>max_possible_score > 0\<close> fails and nothing is stored for the disease,
  \<open>Some\<close> of the value stored in \<^verbatim>\<open>results[disease]\<close> otherwise.
\<close>

definition probability :: "weights \<Rightarrow> symptom list \<Rightarrow> py_error + pyfloat option" where
  "probability symptom_weights selected_symptoms =
     (case match_loop symptom_weights selected_symptoms 0 of
        Inl e \<Rightarrow> Inl e
      | Inr match_score \<Rightarrow>
          let mx = max_possible_score symptom_weights
          in if 0 < mx
             then (case float_truediv match_score mx of
                     Inl e \<Rightarrow> Inl e
                   | Inr q \<Rightarrow> Inr (Some (py_min (float_mul q 100) 100)))
             else Inr None)"

text \<open>
  The outer loop, line 39; \<^verbatim>\<open>results[disease] = v\<close> is \<open>AList.update\<close>, which
  overwrites an existing key in place and appends a new one.
\<close>

fun results_loop ::
  "profiles \<Rightarrow> symptom list \<Rightarrow> (string \<times> pyfloat) list \<Rightarrow> py_error + (string \<times> pyfloat) list"
where
  "results_loop [] selected_symptoms results = Inr results"
| "results_loop ((disease, symptom_weights) # rest) selected_symptoms results =
     (case probability symptom_weights selected_symptoms of
        Inl e \<Rightarrow> Inl e
      | Inr None \<Rightarrow> results_loop rest selected_symptoms results
      | Inr (Some p) \<Rightarrow>
          results_loop rest selected_symptoms (AList.update disease p results))"

text \<open>
  The data frame is the list of its rows, each a pair of the columns
  \<^verbatim>\<open>Disease\<close> and \<^verbatim>\<open>Probability\<close>.  \<^verbatim>\<open>sort_values(by='Probability', ascending=False)\<close>
  is pandas code, called with its default \<^verbatim>\<open>kind='quicksort'\<close>: it returns the rows ordered
  by falling probability and promises no order among rows of equal probability.  Which
  arrangement comes out depends on the algorithm numpy runs, so the sort is a parameter
  of the model and \<open>sorts_descending\<close> is all that is known of it: the result has the rows
  of the frame, each as often as the frame has it, by falling probability.
\<close>

type_synonym data_frame = "(string \<times> pyfloat) list"

definition sorts_descending :: "(data_frame \<Rightarrow> data_frame) \<Rightarrow> bool" where
  "sorts_descending sort_values \<longleftrightarrow>
     (\<forall>df. mset (sort_values df) = mset df
         \<and> sorted_wrt (\<lambda>a b. snd b \<le> snd a) (sort_values df))"

text \<open>
  Two sorts of that kind: one keeps rows of equal probability in the order of the frame
  (\<^verbatim>\<open>kind='stable'\<close>), the other one reverses them.
\<close>

definition sort_values_stable :: "data_frame \<Rightarrow> data_frame" where
  "sort_values_stable df = sort_key (\<lambda>row. - snd row) df"


definition head :: "nat \<Rightarrow> 'a list \<Rightarrow> 'a list" where
  "head n df = take n df"

text \<open>
  \<^verbatim>\<open>calculate_probability\<close> reads the module constant \<^verbatim>\<open>DISEASE_PROFILES\<close>; the table
  is a parameter of \<open>calculate_probability_with\<close> so that statements about any table
  can be made, and \<open>calculate_probability\<close> is the function of the source.
\<close>

definition calculate_probability_with ::
  "(data_frame \<Rightarrow> data_frame) \<Rightarrow> profiles \<Rightarrow> symptom list \<Rightarrow> py_error + data_frame"
where
  "calculate_probability_with sort_values table selected_symptoms =
     (if selected_symptoms = [] then Inr []
      else (case results_loop table selected_symptoms [] of
              Inl e \<Rightarrow> Inl e
            | Inr results \<Rightarrow>
                Inr (head 5 (filter (\<lambda>row. 5 < snd row) (sort_values results)))))"

definition calculate_probability ::
  "(data_frame \<Rightarrow> data_frame) \<Rightarrow> symptom list \<Rightarrow> py_error + data_frame"
where
  "calculate_probability sort_values selected_symptoms =
     calculate_probability_with sort_values DISEASE_PROFILES selected_symptoms"

section \<open>The choice of a body region\<close>





section \<open>The sums without rounding\<close>

text \<open>
  What the two inner loops add up when nothing is rounded: the weights of the selected
  symptoms that the profile has, and all the weights of the profile.  These are the
  \<open>matchScore\<close> and \<open>maxScore\<close> of the specification, which reasons about them as about
  real numbers; \<open>match_loop\<close> and \<open>max_possible_score\<close> are what the code computes.
\<close>

definition exact_match_score :: "weights \<Rightarrow> symptom list \<Rightarrow> rat" where
  "exact_match_score symptom_weights selected_symptoms =
     sum_list (map (\<lambda>symptom. case map_of symptom_weights symptom of
                                 None \<Rightarrow> 0
                               | Some w \<Rightarrow> w) selected_symptoms)"

definition exact_max_score :: "weights \<Rightarrow> rat" where
  "exact_max_score symptom_weights = sum_list (map snd symptom_weights)"

section \<open>Rounding\<close>

lemma powi2_less_iff: "(2::rat) powi m < 2 powi n \<longleftrightarrow> m < n"
proof
  assume "(2::rat) powi m < 2 powi n"
  show "m < n"
  proof (rule ccontr)
    assume "\<not> m < n"
    then have "n \<le> m" by simp
    then have "(2::rat) powi n \<le> 2 powi m" by (intro power_int_increasing) auto
    with \<open>(2::rat) powi m < 2 powi n\<close> show False by simp
  qed
next
  assume "m < n" then show "(2::rat) powi m < 2 powi n"
    by (intro power_int_strict_increasing) auto
qed

lemma binexp_unique:
  fixes x :: rat
  assumes "2 powi e \<le> x" "x < 2 powi (e + 1)" "2 powi e' \<le> x" "x < 2 powi (e' + 1)"
  shows "e = (e'::int)"
proof -
  from assms have "(2::rat) powi e < 2 powi (e' + 1)" "(2::rat) powi e' < 2 powi (e + 1)"
    by linarith+
  then have "e < e' + 1" "e' < e + 1" by (simp_all only: powi2_less_iff)
  then show ?thesis by simp
qed

lemma bitlen_rat_bounds:
  assumes "0 < a"
  shows "(2::rat) powi (bitlen a - 1) \<le> of_int a" "of_int a < (2::rat) powi bitlen a"
proof -
  from bitlen_bounds[OF assms]
  have 1: "2 ^ nat (bitlen a - 1) \<le> a" and 2: "a < 2 ^ nat (bitlen a)" by auto
  have pos: "1 \<le> bitlen a" using assms by (auto simp: bitlen_alt_def)
  have "(of_int (2 ^ nat (bitlen a - 1)) :: rat) \<le> of_int a" using 1 by (simp only: of_int_le_iff)
  then show "(2::rat) powi (bitlen a - 1) \<le> of_int a"
    using pos by (simp add: power_int_nonneg_exp)
  have "(of_int a :: rat) < of_int (2 ^ nat (bitlen a))" using 2 by (simp only: of_int_less_iff)
  then show "of_int a < (2::rat) powi bitlen a"
    using pos by (simp add: power_int_nonneg_exp)
qed

lemma binexp_bounds:
  assumes "0 < x"
  shows "2 powi binexp x \<le> x \<and> x < 2 powi (binexp x + 1)"
proof -
  obtain a b where q: "quotient_of x = (a, b)" by (cases "quotient_of x")
  then have b: "0 < b" and x: "x = of_int a / of_int b"
    by (auto dest: quotient_of_denom_pos quotient_of_div)
  from assms x b have a: "0 < a" by (simp add: zero_less_divide_iff)
  define k where "k = bitlen a - bitlen b"
  note A = bitlen_rat_bounds[OF a] and B = bitlen_rat_bounds[OF b]
  have bpos: "(0::rat) < of_int b" using b by simp
  have "x < 2 powi bitlen a / 2 powi (bitlen b - 1)"
    unfolding x using A(2) B(1) bpos a
    by (intro frac_less) auto
  also have "\<dots> = 2 powi (bitlen a - (bitlen b - 1))"
    by (rule power_int_diff[symmetric]) simp
  also have "bitlen a - (bitlen b - 1) = k + 1" by (simp add: k_def)
  finally have up: "x < 2 powi (k + 1)" .
  have "2 powi (bitlen a - 1) / 2 powi bitlen b < x"
    unfolding x using A(1) B(2) bpos a
    by (intro frac_less2) auto
  moreover have "(2::rat) powi (bitlen a - 1) / 2 powi bitlen b = 2 powi (bitlen a - 1 - bitlen b)"
    by (rule power_int_diff[symmetric]) simp
  moreover have "bitlen a - 1 - bitlen b = k - 1" by (simp add: k_def)
  ultimately have lo: "2 powi (k - 1) < x" by simp
  have be: "binexp x = (if 2 powi k \<le> x then k else k - 1)"
    by (simp add: binexp_def q k_def Let_def)
  show ?thesis using up lo by (auto simp: be)
qed

lemma binexp_eq:
  assumes "2 powi e \<le> x" "x < 2 powi (e + 1)"
  shows "binexp x = e"
proof -
  have "0 < x" using assms(1) by (rule less_le_trans[rotated]) simp
  from binexp_bounds[OF this] assms show ?thesis by (intro binexp_unique[of _ x]) auto
qed

lemma fl_eval:
  assumes "2 ^ 52 \<le> x * 2 ^ n" "x * 2 ^ n < 2 ^ 53"
  shows "fl x = of_int (round_half_even (x * 2 ^ n)) / 2 ^ n"
proof -
  have "(0::rat) < 2 ^ 52" by simp
  also note assms(1)
  finally have pos: "0 < x" by (simp add: zero_less_mult_iff)
  have "binexp x = 52 - int n"
  proof (rule binexp_eq)
    have "(2::rat) powi (52 - int n) = 2 ^ 52 / 2 ^ n" by (simp add: power_int_diff)
    moreover have "2 ^ 52 / 2 ^ n \<le> x" using assms(1) by (simp add: pos_divide_le_eq)
    ultimately show "2 powi (52 - int n) \<le> x" by simp
    have "52 - int n + 1 = 53 - int n" by simp
    moreover have "(2::rat) powi (53 - int n) = 2 ^ 53 / 2 ^ n" by (simp add: power_int_diff)
    moreover have "x < 2 ^ 53 / 2 ^ n" using assms(2) by (simp add: pos_less_divide_eq)
    ultimately show "x < 2 powi (52 - int n + 1)" by simp
  qed
  then have "2 powi (binexp \<bar>x\<bar> - 52) = (1::rat) / 2 ^ n" using pos
    by (simp add: power_int_minus_divide)
  then show ?thesis using pos by (simp add: fl_def Let_def)
qed

lemma floor_rat_numeral_div:
  "\<lfloor>numeral a / numeral b :: rat\<rfloor> = numeral a div numeral b"
  by (metis floor_divide_of_int_eq of_int_numeral)

section \<open>The loops return\<close>

lemma fl_zero: "fl 0 = 0"
  by (simp add: fl_def)

lemma dict_getitem_key:
  "symptom \<in> fst ` set symptom_weights \<Longrightarrow> \<exists>w. dict_getitem symptom_weights symptom = Inr w"
proof -
  assume "symptom \<in> fst ` set symptom_weights"
  then have "map_of symptom_weights symptom \<noteq> None"
    by (simp add: map_of_eq_None_iff)
  then show ?thesis by (auto simp: dict_getitem_def)
qed

lemma match_loop_total: "\<exists>m. match_loop W S acc = Inr m"
proof (induction S arbitrary: acc)
  case Nil
  show ?case by simp
next
  case (Cons s S)
  show ?case
  proof (cases "s \<in> fst ` set W")
    case True
    from dict_getitem_key[OF True] obtain w where "dict_getitem W s = Inr w" ..
    with True Cons.IH[of "float_add acc w"] show ?thesis by simp
  next
    case False
    with Cons.IH[of acc] show ?thesis by simp
  qed
qed

lemma probability_cases:
  obtains (excluded) "\<not> 0 < max_possible_score W" "probability W S = Inr None"
  | (stored) m where "0 < max_possible_score W" "match_loop W S 0 = Inr m"
      "probability W S =
         Inr (Some (py_min (float_mul (fl (m / max_possible_score W)) 100) 100))"
proof -
  obtain m where m: "match_loop W S 0 = Inr m" using match_loop_total by blast
  show thesis
  proof (cases "0 < max_possible_score W")
    case True
    with m show ?thesis
      by (intro stored[of m]) (simp_all add: probability_def float_truediv_def)
  next
    case False
    with m show ?thesis
      by (intro excluded) (simp_all add: probability_def)
  qed
qed

lemma probability_total: "\<exists>r. probability W S = Inr r"
  by (cases W S rule: probability_cases) auto

lemma probability_le_100: "probability W S = Inr (Some p) \<Longrightarrow> p \<le> 100"
  by (cases W S rule: probability_cases) (auto simp: py_min_def)


lemma results_loop_total: "\<exists>r. results_loop table S acc = Inr r"
proof (induction table arbitrary: acc)
  case Nil
  show ?case by simp
next
  case (Cons entry table)
  obtain d W where entry: "entry = (d, W)" by (cases entry)
  obtain r where r: "probability W S = Inr r" using probability_total by blast
  show ?case
  proof (cases r)
    case None
    with r entry Cons.IH[of acc] show ?thesis by simp
  next
    case (Some p)
    with r entry Cons.IH[of "AList.update d p acc"] show ?thesis by simp
  qed
qed

lemma set_update_cases:
  "x \<in> set (AList.update k v al) \<Longrightarrow> x = (k, v) \<or> x \<in> set al"
  by (induction al) (auto split: if_splits)

lemma results_loop_rows:
  "results_loop table S acc = Inr r \<Longrightarrow> (d, p) \<in> set r \<Longrightarrow>
     (d, p) \<in> set acc \<or> (\<exists>W. (d, W) \<in> set table \<and> probability W S = Inr (Some p))"
proof (induction table arbitrary: acc)
  case Nil
  then show ?case by simp
next
  case (Cons entry table)
  obtain d' W' where entry: "entry = (d', W')" by (cases entry)
  obtain q where q: "probability W' S = Inr q" using probability_total by blast
  show ?case
  proof (cases q)
    case None
    with q entry Cons.prems have "results_loop table S acc = Inr r" by simp
    from Cons.IH[OF this Cons.prems(2)] show ?thesis by auto
  next
    case (Some p')
    with q entry Cons.prems have "results_loop table S (AList.update d' p' acc) = Inr r" by simp
    from Cons.IH[OF this Cons.prems(2)] show ?thesis
    proof
      assume "(d, p) \<in> set (AList.update d' p' acc)"
      from set_update_cases[OF this] show ?thesis
        using q Some entry by auto
    next
      assume "\<exists>W. (d, W) \<in> set table \<and> probability W S = Inr (Some p)"
      then show ?thesis by auto
    qed
  qed
qed

lemma results_loop_distinct:
  "results_loop table S acc = Inr r \<Longrightarrow> distinct (map fst acc) \<Longrightarrow> distinct (map fst r)"
proof (induction table arbitrary: acc)
  case Nil
  then show ?case by simp
next
  case (Cons entry table)
  obtain d' W' where entry: "entry = (d', W')" by (cases entry)
  obtain q where q: "probability W' S = Inr q" using probability_total by blast
  show ?case
  proof (cases q)
    case None
    with q entry Cons.prems show ?thesis by (auto intro: Cons.IH)
  next
    case (Some p')
    with q entry Cons.prems have "results_loop table S (AList.update d' p' acc) = Inr r" by simp
    moreover have "distinct (map fst (AList.update d' p' acc))"
      using Cons.prems(2) by (simp add: distinct_update)
    ultimately show ?thesis by (rule Cons.IH)
  qed
qed

lemma sorts_descendingD:
  assumes "sorts_descending sort_values"
  shows "mset (sort_values df) = mset df"
    and "set (sort_values df) = set df"
    and "sorted_wrt (\<lambda>a b. snd b \<le> snd a) (sort_values df)"
proof -
  from assms show perm: "mset (sort_values df) = mset df"
    and "sorted_wrt (\<lambda>a b. snd b \<le> snd a) (sort_values df)"
    by (simp_all add: sorts_descending_def)
  from perm show "set (sort_values df) = set df" by (rule mset_eq_setD)
qed

lemma sorts_descending_stable: "sorts_descending sort_values_stable"
proof -
  have "sorted_wrt (\<lambda>a b. snd b \<le> snd a) (sort_values_stable df)" for df
  proof -
    have "sorted (map (\<lambda>row. - snd row) (sort_values_stable df))"
      by (simp add: sort_values_stable_def)
    then show ?thesis by (simp add: sorted_map)
  qed
  then show ?thesis by (simp add: sorts_descending_def sort_values_stable_def)
qed


lemma data_frame_rows:
  assumes "sorts_descending sort_values"
  shows "set (head n (filter P (sort_values results))) \<subseteq> {row \<in> set results. P row}"
proof
  fix row
  assume "row \<in> set (head n (filter P (sort_values results)))"
  then have "row \<in> set (filter P (sort_values results))"
    unfolding head_def by (rule in_set_takeD)
  then show "row \<in> {row \<in> set results. P row}"
    by (simp add: sorts_descendingD(2)[OF assms])
qed

text \<open>
  Rows with pairwise different probabilities have one arrangement by falling probability
  only, so every sort returns them as the stable one does.
\<close>

lemma filter_key_singleton:
  "distinct (map f xs) \<Longrightarrow> k \<in> set xs \<Longrightarrow> filter (\<lambda>x. f k = f x) xs = [k]"
proof (induction xs)
  case Nil
  then show ?case by simp
next
  case (Cons x xs)
  show ?case
  proof (cases "x = k")
    case True
    with Cons.prems have "filter (\<lambda>x. f k = f x) xs = []"
      by (auto simp: filter_empty_conv)
    with True show ?thesis by simp
  next
    case False
    with Cons.prems have k: "k \<in> set xs" by simp
    then have "f k \<in> f ` set xs" by (rule imageI)
    with Cons.prems have "f k \<noteq> f x" by auto
    with Cons.IH Cons.prems k show ?thesis by simp
  qed
qed

lemma sorted_untied:
  assumes "mset ys = mset xs" and "sorted (map f ys)" and "distinct (map f xs)"
  shows "sort_key f xs = ys"
proof (rule properties_for_sort_key)
  show "mset ys = mset xs" by (rule assms(1))
  show "sorted (map f ys)" by (rule assms(2))
  fix k
  assume k: "k \<in> set ys"
  have "mset (map f ys) = mset (map f xs)" using assms(1) by simp
  with assms(3) have "distinct (map f ys)" by (metis mset_eq_imp_distinct_iff)
  then have "filter (\<lambda>x. f k = f x) ys = [k]" using k by (rule filter_key_singleton)
  moreover have "k \<in> set xs" using k mset_eq_setD[OF assms(1)] by simp
  with assms(3) have "filter (\<lambda>x. f k = f x) xs = [k]" by (rule filter_key_singleton)
  ultimately show "filter (\<lambda>x. f k = f x) ys = filter (\<lambda>x. f k = f x) xs" by simp
qed

lemma frame_untied:
  assumes "sorts_descending sort_values" and "distinct (map snd (filter P results))"
  shows "filter P (sort_values results) = sort_key (\<lambda>row. - snd row) (filter P results)"
proof (rule sorted_untied[symmetric])
  show "mset (filter P (sort_values results)) = mset (filter P results)"
    by (simp add: sorts_descendingD(1)[OF assms(1)])
  have "sorted_wrt (\<lambda>a b. snd b \<le> snd a) (filter P (sort_values results))"
    by (intro sorted_wrt_filter sorts_descendingD(3)[OF assms(1)])
  then show "sorted (map (\<lambda>row. - snd row) (filter P (sort_values results)))"
    by (simp add: sorted_map)
  show "distinct (map (\<lambda>row. - snd row) (filter P results))"
    using assms(2) by (simp add: distinct_map inj_on_def)
qed

lemma unique_profile:
  "distinct (map fst table) \<Longrightarrow> (d, W) \<in> set table \<Longrightarrow> (d, W') \<in> set table \<Longrightarrow> W = W'"
  by (metis map_of_is_SomeI option.inject)

section \<open>The compiled-in table, evaluated\<close>

lemmas fl_evals = floor_rat_numeral_div round_half_even_def Let_def
  fl_eval[where n=45] fl_eval[where n=46] fl_eval[where n=47] fl_eval[where n=48] fl_eval[where n=49]
  fl_eval[where n=50] fl_eval[where n=51] fl_eval[where n=52] fl_eval[where n=53] fl_eval[where n=54]
  fl_eval[where n=55] fl_eval[where n=56] fl_eval[where n=57]

lemma Migraine_eval:
  "Migraine =
    [(''Severe headache'', 4278419646001971 / 4503599627370496),
     (''Blurred vision'', 5404319552844595 / 9007199254740992),
     (''Dizziness'', 3602879701896397 / 9007199254740992)]"
  by (simp add: Migraine_def float_literal_def fl_evals)

lemma Pneumonia_eval:
  "Pneumonia =
    [(''Persistent cough'', 8106479329266893 / 9007199254740992),
     (''Shortness of breath'', 3602879701896397 / 4503599627370496),
     (''Fever'', 3152519739159347 / 4503599627370496)]"
  by (simp add: Pneumonia_def float_literal_def fl_evals)

lemma Irritable_Bowel_Syndrome_eval:
  "Irritable_Bowel_Syndrome =
    [(''Sharp stomach pain'', 3152519739159347 / 4503599627370496),
     (''Bloating'', 8106479329266893 / 9007199254740992),
     (''Constipation'', 1 / 2)]"
  by (simp add: Irritable_Bowel_Syndrome_def float_literal_def fl_evals)

lemma Anxiety_Disorder_eval:
  "Anxiety_Disorder =
    [(''Heart palpitations'', 3602879701896397 / 4503599627370496),
     (''Shortness of breath'', 1 / 2),
     (''Dizziness'', 1 / 2),
     (''Fatigue'', 5404319552844595 / 9007199254740992)]"
  by (simp add: Anxiety_Disorder_def float_literal_def fl_evals)

lemma Rheumatoid_Arthritis_eval:
  "Rheumatoid_Arthritis =
    [(''Joint swelling'', 8106479329266893 / 9007199254740992),
     (''Joint stiffness'', 3602879701896397 / 4503599627370496),
     (''Fatigue'', 1 / 2)]"
  by (simp add: Rheumatoid_Arthritis_def float_literal_def fl_evals)

lemma max_Migraine: "max_possible_score Migraine = 4391009636686233 / 2251799813685248"
  by (simp add: max_possible_score_def Migraine_eval float_add_def fl_evals)

lemma max_Pneumonia: "max_possible_score Pneumonia = 1351079888211149 / 562949953421312"
  by (simp add: max_possible_score_def Pneumonia_eval float_add_def fl_evals)

lemma max_Irritable_Bowel_Syndrome:
  "max_possible_score Irritable_Bowel_Syndrome = 4728779608739021 / 2251799813685248"
  by (simp add: max_possible_score_def Irritable_Bowel_Syndrome_eval float_add_def fl_evals)

lemma max_Anxiety_Disorder:
  "max_possible_score Anxiety_Disorder = 5404319552844595 / 2251799813685248"
  by (simp add: max_possible_score_def Anxiety_Disorder_eval float_add_def fl_evals)

lemma max_Rheumatoid_Arthritis:
  "max_possible_score Rheumatoid_Arthritis = 2476979795053773 / 1125899906842624"
  by (simp add: max_possible_score_def Rheumatoid_Arthritis_eval float_add_def fl_evals)

section \<open>Evaluating the scoring function\<close>

lemma probability_eval:
  assumes "match_loop W S 0 = Inr m" and "max_possible_score W = mx" and "0 < mx"
  shows "probability W S = Inr (Some (py_min (float_mul (fl (m / mx)) 100) 100))"
  using assms by (simp add: probability_def float_truediv_def)

lemmas match_evals = dict_getitem_def float_add_def fl_evals
lemmas conf_evals = py_min_def float_mul_def fl_zero fl_evals

lemma match_loop_no_match:
  "set S \<inter> fst ` set W = {} \<Longrightarrow> match_loop W S acc = Inr acc"
  by (induction S) auto

lemma probability_no_match:
  assumes "set S \<inter> fst ` set W = {}" and "0 < max_possible_score W"
  shows "probability W S = Inr (Some 0)"
proof -
  have "match_loop W S 0 = Inr 0" using assms(1) by (rule match_loop_no_match)
  from probability_eval[OF this refl assms(2)] show ?thesis
    by (simp add: py_min_def float_mul_def fl_zero)
qed

lemma profile_keys:
  "fst ` set Migraine = {''Severe headache'', ''Blurred vision'', ''Dizziness''}"
  "fst ` set Pneumonia = {''Persistent cough'', ''Shortness of breath'', ''Fever''}"
  "fst ` set Irritable_Bowel_Syndrome = {''Sharp stomach pain'', ''Bloating'', ''Constipation''}"
  "fst ` set Anxiety_Disorder =
     {''Heart palpitations'', ''Shortness of breath'', ''Dizziness'', ''Fatigue''}"
  "fst ` set Rheumatoid_Arthritis = {''Joint swelling'', ''Joint stiffness'', ''Fatigue''}"
  by (simp_all add: Migraine_def Pneumonia_def Irritable_Bowel_Syndrome_def
      Anxiety_Disorder_def Rheumatoid_Arthritis_def)

lemma max_positive:
  "0 < max_possible_score Migraine" "0 < max_possible_score Pneumonia"
  "0 < max_possible_score Irritable_Bowel_Syndrome" "0 < max_possible_score Anxiety_Disorder"
  "0 < max_possible_score Rheumatoid_Arthritis"
  by (simp_all add: max_Migraine max_Pneumonia max_Irritable_Bowel_Syndrome
      max_Anxiety_Disorder max_Rheumatoid_Arthritis)

lemma severe_headache_Migraine:
  "probability Migraine [''Severe headache''] = Inr (Some (6856441740387775 / 140737488355328))"
proof -
  have "match_loop Migraine [''Severe headache''] 0 = Inr (4278419646001971 / 4503599627370496)"
    by (simp add: Migraine_eval match_evals)
  from probability_eval[OF this max_Migraine] show ?thesis
    by (simp add: conf_evals)
qed

lemma severe_headache_others:
  "probability Pneumonia [''Severe headache''] = Inr (Some 0)"
  "probability Irritable_Bowel_Syndrome [''Severe headache''] = Inr (Some 0)"
  "probability Anxiety_Disorder [''Severe headache''] = Inr (Some 0)"
  "probability Rheumatoid_Arthritis [''Severe headache''] = Inr (Some 0)"
  by (rule probability_no_match; simp add: profile_keys max_positive)+

lemma severe_headache_results:
  "results_loop DISEASE_PROFILES [''Severe headache''] [] =
     Inr [(''Migraine'', 6856441740387775 / 140737488355328), (''Pneumonia'', 0),
          (''Irritable Bowel Syndrome (IBS)'', 0), (''Anxiety Disorder'', 0),
          (''Rheumatoid Arthritis'', 0)]"
  by (simp add: DISEASE_PROFILES_def severe_headache_Migraine severe_headache_others)

lemma severe_headache_frame:
  assumes "sorts_descending sort_values"
  shows "calculate_probability_with sort_values DISEASE_PROFILES [''Severe headache''] =
           Inr [(''Migraine'', 6856441740387775 / 140737488355328)]"
  unfolding calculate_probability_with_def severe_headache_results
  by (simp add: frame_untied[OF assms] head_def)

lemma one_in_twenty_results:
  "results_loop [(''X'', [(''a'', 1), (''b'', 19)])] [''a''] [] = Inr [(''X'', 5)]"
proof -
  have "match_loop [(''a'', 1), (''b'', 19)] [''a''] 0 = Inr 1"
    by (simp add: match_evals)
  moreover have "max_possible_score [(''a'', 1), (''b'', 19)] = 20"
    by (simp add: max_possible_score_def float_add_def fl_evals)
  ultimately have "probability [(''a'', 1), (''b'', 19)] [''a''] = Inr (Some 5)"
    by (simp add: probability_eval conf_evals)
  then show ?thesis by simp
qed

lemma one_in_twenty_frame:
  assumes "sorts_descending sort_values"
  shows "calculate_probability_with sort_values [(''X'', [(''a'', 1), (''b'', 19)])] [''a''] =
           Inr []"
  unfolding calculate_probability_with_def one_in_twenty_results
  by (simp add: frame_untied[OF assms] head_def)

section \<open>Claims\<close>

text \<open>
  C1.  For every non-empty selection, every row of the returned frame has a confidence
  strictly above 5 and at most 100; a disease whose stored confidence is exactly 5 has no
  row in the frame.  The statement holds for any table, so also for the compiled-in one.
\<close>

theorem confidence_in_range:
  assumes "sorts_descending sort_values"
    and "selected_symptoms \<noteq> []"
    and "results_loop table selected_symptoms [] = Inr results"
    and "calculate_probability_with sort_values table selected_symptoms = Inr df"
  shows "(\<forall>row \<in> set df. 5 < snd row \<and> snd row \<le> 100)
       \<and> (\<forall>disease. (disease, 5) \<in> set results \<longrightarrow> disease \<notin> fst ` set df)"
proof -
  from assms(2-4)
  have df: "df = head 5 (filter (\<lambda>row. 5 < snd row) (sort_values results))"
    by (simp add: calculate_probability_with_def)
  then have rows: "set df \<subseteq> {row \<in> set results. 5 < snd row}"
    using data_frame_rows[OF assms(1), of 5 "\<lambda>row. 5 < snd row" results] by simp
  have range: "5 < snd row \<and> snd row \<le> 100" if "row \<in> set df" for row
  proof -
    from that rows have in_results: "(fst row, snd row) \<in> set results" and low: "5 < snd row"
      by auto
    from results_loop_rows[OF assms(3) in_results]
    obtain W where "probability W selected_symptoms = Inr (Some (snd row))" by auto
    then have "snd row \<le> 100" by (rule probability_le_100)
    with low show ?thesis by simp
  qed
  have keys: "distinct (map fst results)"
    using results_loop_distinct[OF assms(3)] by simp
  have excluded: "disease \<notin> fst ` set df" if five: "(disease, 5) \<in> set results" for disease
  proof
    assume "disease \<in> fst ` set df"
    then obtain p where "(disease, p) \<in> set df" by auto
    with rows have "(disease, p) \<in> set results" and "5 < p" by auto
    with five keys have "p = 5" by (meson eq_key_imp_eq_value)
    with \<open>5 < p\<close> show False by simp
  qed
  from range excluded show ?thesis by blast
qed

theorem confidence_in_range_witness:
  "sorts_descending sort_values_stable
   \<and> calculate_probability_with sort_values_stable DISEASE_PROFILES [''Severe headache''] =
       Inr [(''Migraine'', 6856441740387775 / 140737488355328)]
   \<and> (5::rat) < 6856441740387775 / 140737488355328
   \<and> (6856441740387775 / 140737488355328 :: rat) \<le> 100
   \<and> results_loop [(''X'', [(''a'', 1), (''b'', 19)])] [''a''] [] = Inr [(''X'', 5)]
   \<and> calculate_probability_with sort_values_stable [(''X'', [(''a'', 1), (''b'', 19)])] [''a''] =
       Inr []
   \<and> ''X'' \<notin> fst ` set ([] :: (string \<times> pyfloat) list)"
  using confidence_in_range[OF sorts_descending_stable _ severe_headache_results
      severe_headache_frame[OF sorts_descending_stable]]
    confidence_in_range[OF sorts_descending_stable _ one_in_twenty_results
      one_in_twenty_frame[OF sorts_descending_stable]]
    severe_headache_frame[OF sorts_descending_stable]
    one_in_twenty_frame[OF sorts_descending_stable]
    one_in_twenty_results sorts_descending_stable
  by simp

text \<open>
  C2.  For every table the empty selection returns the empty frame: the test on the
  selection is the first branch of the function and the loop over the table is in the
  other one, so the table is not looked at.
\<close>

theorem empty_selection: "calculate_probability_with sort_values table [] = Inr []"
  by (simp add: calculate_probability_with_def)
















text \<open>
  C10 at the symptom that breaks it: \<^verbatim>\<open>Joint stiffness\<close> has a weight in the profile of
  \<^verbatim>\<open>Rheumatoid Arthritis\<close> and is in the list of no body region.
\<close>

theorem joint_stiffness_in_no_region:
  "(''Rheumatoid Arthritis'', Rheumatoid_Arthritis) \<in> set DISEASE_PROFILES
   \<and> ''Joint stiffness'' \<in> fst ` set Rheumatoid_Arthritis
   \<and> ''Joint stiffness'' \<notin> set (concat (map snd BODY_PART_SYMPTOMS))"
  by (simp add: DISEASE_PROFILES_def profile_keys BODY_PART_SYMPTOMS_def)

lemma calculate_probability_with_total:
  "\<exists>df. calculate_probability_with sort_values table selected_symptoms = Inr df"
proof -
  obtain results where "results_loop table selected_symptoms [] = Inr results"
    using results_loop_total by blast
  then show ?thesis by (simp add: calculate_probability_with_def)
qed

lemma frame_rows_scored:
  assumes "sorts_descending sort_values"
    and "calculate_probability_with sort_values table selected_symptoms = Inr df"
    and "(disease, p) \<in> set df"
  shows "\<exists>W. (disease, W) \<in> set table \<and> probability W selected_symptoms = Inr (Some p)"
proof -
  from assms(2,3) have nonempty: "selected_symptoms \<noteq> []"
    by (auto simp: calculate_probability_with_def)
  obtain results where results: "results_loop table selected_symptoms [] = Inr results"
    using results_loop_total by blast
  with assms(2) nonempty
  have "df = head 5 (filter (\<lambda>row. 5 < snd row) (sort_values results))"
    by (simp add: calculate_probability_with_def)
  with assms(3) data_frame_rows[OF assms(1), of 5 "\<lambda>row. 5 < snd row" results]
  have "(disease, p) \<in> set results" by auto
  from results_loop_rows[OF results this] show ?thesis by simp
qed

lemma zero_pair_results:
  assumes "sorts_descending sort_values"
  shows "calculate_probability_with sort_values
           [(''Zero'', [(''a'', 0)]), (''One'', [(''a'', 1)])] [''a''] =
         Inr [(''One'', 100)]"
proof -
  have "max_possible_score [(''a'', 0)] = 0"
    by (simp add: max_possible_score_def float_add_def fl_zero)
  moreover have "match_loop [(''a'', 0)] [''a''] 0 = Inr 0"
    by (simp add: dict_getitem_def float_add_def fl_zero)
  ultimately have zero: "probability [(''a'', 0)] [''a''] = Inr None"
    by (simp add: probability_def)
  have "match_loop [(''a'', 1)] [''a''] 0 = Inr 1"
    by (simp add: match_evals)
  moreover have "max_possible_score [(''a'', 1)] = 1"
    by (simp add: max_possible_score_def float_add_def fl_evals)
  ultimately have one: "probability [(''a'', 1)] [''a''] = Inr (Some 100)"
    by (simp add: probability_eval conf_evals)
  have "results_loop [(''Zero'', [(''a'', 0)]), (''One'', [(''a'', 1)])] [''a''] [] =
          Inr [(''One'', 100)]"
    by (simp add: zero one)
  then show ?thesis
    unfolding calculate_probability_with_def
    by (simp add: frame_untied[OF assms] head_def)
qed

text \<open>
  C7.  A disease whose weights sum to 0 stores no confidence and has no row in the frame,
  whatever the selection; the division is behind the guard \<^verbatim>\<open>max_possible_score > 0\<close>, so
  no call raises \<^verbatim>\<open>ZeroDivisionError\<close>; and every disease of the compiled-in table has a
  positive sum, so for it the guard never fails.
\<close>

theorem zero_sum_excluded:
  assumes "sorts_descending sort_values"
  shows "(max_possible_score W = 0 \<longrightarrow> probability W selected_symptoms = Inr None)
   \<and> (distinct (map fst table) \<longrightarrow> (disease, W) \<in> set table \<longrightarrow> max_possible_score W = 0 \<longrightarrow>
        calculate_probability_with sort_values table selected_symptoms = Inr df \<longrightarrow>
        disease \<notin> fst ` set df)
   \<and> calculate_probability_with sort_values table selected_symptoms \<noteq> Inl ZeroDivisionError
   \<and> (\<forall>entry \<in> set DISEASE_PROFILES. 0 < max_possible_score (snd entry))"
proof -
  have none: "probability W selected_symptoms = Inr None" if "max_possible_score W = 0"
    using that by (cases W selected_symptoms rule: probability_cases) auto
  have no_row: "disease \<notin> fst ` set df"
    if "distinct (map fst table)" "(disease, W) \<in> set table" "max_possible_score W = 0"
      "calculate_probability_with sort_values table selected_symptoms = Inr df"
  proof
    assume "disease \<in> fst ` set df"
    then obtain p where "(disease, p) \<in> set df" by auto
    from frame_rows_scored[OF assms that(4) this] obtain W'
      where W': "(disease, W') \<in> set table" "probability W' selected_symptoms = Inr (Some p)"
      by blast
    from unique_profile[OF that(1) that(2) W'(1)] have "W = W'" .
    with W'(2) none[OF that(3)] show False by simp
  qed
  have no_error:
    "calculate_probability_with sort_values table selected_symptoms \<noteq> Inl ZeroDivisionError"
    using calculate_probability_with_total[of sort_values table selected_symptoms] by auto
  have shipped: "\<forall>entry \<in> set DISEASE_PROFILES. 0 < max_possible_score (snd entry)"
    by (simp add: DISEASE_PROFILES_def max_positive)
  from none no_row no_error shipped show ?thesis by blast
qed

theorem zero_sum_excluded_witness:
  "sorts_descending sort_values_stable
   \<and> max_possible_score [(''a'', 0)] = 0
   \<and> probability [(''a'', 0)] [''a''] = Inr None
   \<and> calculate_probability_with sort_values_stable
        [(''Zero'', [(''a'', 0)]), (''One'', [(''a'', 1)])] [''a''] =
       Inr [(''One'', 100)]
   \<and> ''Zero'' \<notin> fst ` set [(''One'', 100 :: pyfloat)]
   \<and> 0 < max_possible_score (snd (''Migraine'', Migraine))"
proof -
  have zero: "max_possible_score [(''a'', 0)] = 0"
    by (simp add: max_possible_score_def float_add_def fl_zero)
  note inst = zero_sum_excluded[OF sorts_descending_stable, of "[(''a'', 0)]" "[''a'']"
      "[(''Zero'', [(''a'', 0)]), (''One'', [(''a'', 1)])]" "''Zero''" "[(''One'', 100)]"]
  from inst zero zero_pair_results[OF sorts_descending_stable] sorts_descending_stable
  show ?thesis
    by (simp add: DISEASE_PROFILES_def)
qed

lemma match_loop_filter:
  "match_loop W (filter (\<lambda>s. s \<in> fst ` set W) S) acc = match_loop W S acc"
  by (induction S arbitrary: acc) (auto split: sum.splits)

lemma probability_filter:
  "probability W (filter (\<lambda>s. s \<in> fst ` set W) S) = probability W S"
  by (simp add: probability_def match_loop_filter)

lemma no_match_results:
  assumes "\<forall>s \<in> set selected_symptoms. \<forall>entry \<in> set DISEASE_PROFILES. s \<notin> fst ` set (snd entry)"
  shows "results_loop DISEASE_PROFILES selected_symptoms [] =
           Inr [(''Migraine'', 0), (''Pneumonia'', 0), (''Irritable Bowel Syndrome (IBS)'', 0),
                (''Anxiety Disorder'', 0), (''Rheumatoid Arthritis'', 0)]"
proof -
  have disjoint: "set selected_symptoms \<inter> fst ` set W = {}"
    if "W \<in> snd ` set DISEASE_PROFILES" for W
    using assms that by fastforce
  have "probability Migraine selected_symptoms = Inr (Some 0)"
    "probability Pneumonia selected_symptoms = Inr (Some 0)"
    "probability Irritable_Bowel_Syndrome selected_symptoms = Inr (Some 0)"
    "probability Anxiety_Disorder selected_symptoms = Inr (Some 0)"
    "probability Rheumatoid_Arthritis selected_symptoms = Inr (Some 0)"
    by (rule probability_no_match, rule disjoint, simp add: DISEASE_PROFILES_def,
        simp add: max_positive)+
  then show ?thesis by (simp add: DISEASE_PROFILES_def)
qed

text \<open>
  C8.  A selected symptom that is in no profile changes no match score: scoring the
  selection is scoring what is left of it once such symptoms are removed.  No selection
  makes the function fail.  A selection with no symptom of any profile of the compiled-in
  table stores the confidence 0 for each of the five diseases and returns the empty frame;
  \<^verbatim>\<open>{"Foot tingling"}\<close> is such a selection.
\<close>

theorem unknown_symptoms_ignored:
  assumes "sorts_descending sort_values"
  shows "probability W (filter (\<lambda>s. s \<in> fst ` set W) selected_symptoms) =
     probability W selected_symptoms
   \<and> (\<exists>df. calculate_probability_with sort_values table selected_symptoms = Inr df)
   \<and> ((\<forall>s \<in> set selected_symptoms. \<forall>entry \<in> set DISEASE_PROFILES. s \<notin> fst ` set (snd entry)) \<longrightarrow>
        results_loop DISEASE_PROFILES selected_symptoms [] =
          Inr [(''Migraine'', 0), (''Pneumonia'', 0), (''Irritable Bowel Syndrome (IBS)'', 0),
               (''Anxiety Disorder'', 0), (''Rheumatoid Arthritis'', 0)]
        \<and> calculate_probability sort_values selected_symptoms = Inr [])"
proof (intro conjI impI)
  show "probability W (filter (\<lambda>s. s \<in> fst ` set W) selected_symptoms) =
          probability W selected_symptoms"
    by (rule probability_filter)
  show "\<exists>df. calculate_probability_with sort_values table selected_symptoms = Inr df"
    by (rule calculate_probability_with_total)
next
  assume none:
    "\<forall>s \<in> set selected_symptoms. \<forall>entry \<in> set DISEASE_PROFILES. s \<notin> fst ` set (snd entry)"
  then show results:
    "results_loop DISEASE_PROFILES selected_symptoms [] =
       Inr [(''Migraine'', 0), (''Pneumonia'', 0), (''Irritable Bowel Syndrome (IBS)'', 0),
            (''Anxiety Disorder'', 0), (''Rheumatoid Arthritis'', 0)]"
    by (rule no_match_results)
  show "calculate_probability sort_values selected_symptoms = Inr []"
    unfolding calculate_probability_def calculate_probability_with_def results
    by (simp add: frame_untied[OF assms] head_def)
qed

theorem unknown_symptoms_ignored_witness:
  "sorts_descending sort_values_stable
   \<and> probability Migraine [''Severe headache''] =
       probability Migraine [''Foot tingling'', ''Severe headache'']
   \<and> calculate_probability sort_values_stable [''Foot tingling''] = Inr []
   \<and> results_loop DISEASE_PROFILES [''Foot tingling''] [] =
       Inr [(''Migraine'', 0), (''Pneumonia'', 0), (''Irritable Bowel Syndrome (IBS)'', 0),
            (''Anxiety Disorder'', 0), (''Rheumatoid Arthritis'', 0)]"
proof -
  have unknown:
    "\<forall>s \<in> set [''Foot tingling'']. \<forall>entry \<in> set DISEASE_PROFILES. s \<notin> fst ` set (snd entry)"
    by (simp add: DISEASE_PROFILES_def profile_keys)
  from unknown_symptoms_ignored[OF sorts_descending_stable,
      of Migraine "[''Foot tingling'', ''Severe headache'']"]
  have "probability Migraine [''Severe headache''] =
          probability Migraine [''Foot tingling'', ''Severe headache'']"
    by (simp add: profile_keys)
  with unknown unknown_symptoms_ignored[OF sorts_descending_stable, of _ "[''Foot tingling'']"]
    sorts_descending_stable
  show ?thesis by blast
qed

section \<open>The three symptoms of Migraine, in every order\<close>

lemma arrangements_of_three:
  assumes "distinct S" and "set S = {a, b, c}" and "a \<noteq> b" "a \<noteq> c" "b \<noteq> c"
  shows "S \<in> {[a, b, c], [a, c, b], [b, a, c], [b, c, a], [c, a, b], [c, b, a]}"
proof -
  have "length S = card (set S)" using assms(1) by (simp add: distinct_card)
  also have "\<dots> = 3" using assms by simp
  finally obtain x y z where S: "S = [x, y, z]"
    by (auto simp: numeral_3_eq_3 length_Suc_conv)
  have "x \<in> {a, b, c}" "y \<in> {a, b, c}" "z \<in> {a, b, c}"
    using assms(2) S by auto
  moreover have "x \<noteq> y" "x \<noteq> z" "y \<noteq> z" using assms(1) S by auto
  ultimately show ?thesis unfolding S by auto
qed

lemma Migraine_arrangements:
  assumes "distinct S" and "set S = {''Severe headache'', ''Blurred vision'', ''Dizziness''}"
  shows "S \<in> {[''Severe headache'', ''Blurred vision'', ''Dizziness''],
               [''Severe headache'', ''Dizziness'', ''Blurred vision''],
               [''Blurred vision'', ''Severe headache'', ''Dizziness''],
               [''Blurred vision'', ''Dizziness'', ''Severe headache''],
               [''Dizziness'', ''Severe headache'', ''Blurred vision''],
               [''Dizziness'', ''Blurred vision'', ''Severe headache'']}"
  by (rule arrangements_of_three[OF assms]) simp_all

lemma Migraine_match:
  "match_loop Migraine [''Severe headache'', ''Blurred vision'', ''Dizziness''] 0 =
     Inr (4391009636686233 / 2251799813685248)"
  "match_loop Migraine [''Severe headache'', ''Dizziness'', ''Blurred vision''] 0 =
     Inr (2195504818343117 / 1125899906842624)"
  "match_loop Migraine [''Blurred vision'', ''Severe headache'', ''Dizziness''] 0 =
     Inr (4391009636686233 / 2251799813685248)"
  "match_loop Migraine [''Blurred vision'', ''Dizziness'', ''Severe headache''] 0 =
     Inr (8782019273372467 / 4503599627370496)"
  "match_loop Migraine [''Dizziness'', ''Severe headache'', ''Blurred vision''] 0 =
     Inr (2195504818343117 / 1125899906842624)"
  "match_loop Migraine [''Dizziness'', ''Blurred vision'', ''Severe headache''] 0 =
     Inr (8782019273372467 / 4503599627370496)"
  by (simp_all add: Migraine_eval match_evals)

lemma Migraine_full:
  "probability Migraine [''Severe headache'', ''Blurred vision'', ''Dizziness''] = Inr (Some 100)"
  "probability Migraine [''Severe headache'', ''Dizziness'', ''Blurred vision''] = Inr (Some 100)"
  "probability Migraine [''Blurred vision'', ''Severe headache'', ''Dizziness''] = Inr (Some 100)"
  "probability Migraine [''Blurred vision'', ''Dizziness'', ''Severe headache''] = Inr (Some 100)"
  "probability Migraine [''Dizziness'', ''Severe headache'', ''Blurred vision''] = Inr (Some 100)"
  "probability Migraine [''Dizziness'', ''Blurred vision'', ''Severe headache''] = Inr (Some 100)"
  using probability_eval[OF Migraine_match(1) max_Migraine]
    probability_eval[OF Migraine_match(2) max_Migraine]
    probability_eval[OF Migraine_match(3) max_Migraine]
    probability_eval[OF Migraine_match(4) max_Migraine]
    probability_eval[OF Migraine_match(5) max_Migraine]
    probability_eval[OF Migraine_match(6) max_Migraine]
  by (simp_all add: conf_evals)

lemma Anxiety_dizziness:
  "probability Anxiety_Disorder [''Dizziness''] =
     Inr (Some (2932031007402667 / 140737488355328))"
proof -
  have "match_loop Anxiety_Disorder [''Dizziness''] 0 = Inr (1 / 2)"
    by (simp add: Anxiety_Disorder_eval match_evals)
  from probability_eval[OF this max_Anxiety_Disorder] show ?thesis
    by (simp add: conf_evals)
qed

lemma Migraine_selection_others:
  assumes "set S = {''Severe headache'', ''Blurred vision'', ''Dizziness''}"
  shows "probability Pneumonia S = Inr (Some 0)"
    and "probability Irritable_Bowel_Syndrome S = Inr (Some 0)"
    and "probability Rheumatoid_Arthritis S = Inr (Some 0)"
  by (rule probability_no_match; simp add: assms profile_keys max_positive)+

lemma Migraine_selection_Anxiety:
  assumes "distinct S" and "set S = {''Severe headache'', ''Blurred vision'', ''Dizziness''}"
  shows "probability Anxiety_Disorder S = Inr (Some (2932031007402667 / 140737488355328))"
proof -
  from Migraine_arrangements[OF assms]
  have "filter (\<lambda>s. s \<in> fst ` set Anxiety_Disorder) S = [''Dizziness'']"
    by (auto simp: profile_keys)
  with probability_filter[of Anxiety_Disorder S] Anxiety_dizziness show ?thesis by simp
qed

lemma Migraine_selection_Migraine:
  assumes "distinct S" and "set S = {''Severe headache'', ''Blurred vision'', ''Dizziness''}"
  shows "probability Migraine S = Inr (Some 100)"
  using Migraine_arrangements[OF assms]
  by (elim insertE emptyE) (simp_all only: Migraine_full)

lemma Migraine_selection_results:
  assumes "distinct S" and "set S = {''Severe headache'', ''Blurred vision'', ''Dizziness''}"
  shows "results_loop DISEASE_PROFILES S [] =
          Inr [(''Migraine'', 100), (''Pneumonia'', 0), (''Irritable Bowel Syndrome (IBS)'', 0),
               (''Anxiety Disorder'', 2932031007402667 / 140737488355328),
               (''Rheumatoid Arthritis'', 0)]"
  by (simp add: DISEASE_PROFILES_def Migraine_selection_Migraine[OF assms]
      Migraine_selection_others[OF assms(2)] Migraine_selection_Anxiety[OF assms])

lemma Migraine_selection_frame:
  assumes "sorts_descending sort_values"
    and "distinct S" and "set S = {''Severe headache'', ''Blurred vision'', ''Dizziness''}"
  shows "calculate_probability sort_values S =
           Inr [(''Migraine'', 100), (''Anxiety Disorder'', 2932031007402667 / 140737488355328)]"
proof -
  have "S \<noteq> []"
  proof
    assume "S = []"
    with assms(3) show False by simp
  qed
  then show ?thesis
    by (simp add: calculate_probability_def calculate_probability_with_def
        Migraine_selection_results[OF assms(2,3)] frame_untied[OF assms(1)] head_def)
qed

text \<open>
  C5, as the code has it.  With exactly the three symptoms of \<^verbatim>\<open>Migraine\<close> selected the
  match score is not always the maximum possible score: the two are float sums of the same
  three weights, taken in the order of the set for the one and in the order of the profile
  for the other.  In the order Dizziness, Severe headache, Blurred vision the match score
  is one unit in the last place above the maximum.
\<close>

theorem migraine_match_counterexample:
  "distinct [''Dizziness'', ''Severe headache'', ''Blurred vision'']
   \<and> set [''Dizziness'', ''Severe headache'', ''Blurred vision''] = fst ` set Migraine
   \<and> match_loop Migraine [''Dizziness'', ''Severe headache'', ''Blurred vision''] 0 =
       Inr (2195504818343117 / 1125899906842624)
   \<and> max_possible_score Migraine = 4391009636686233 / 2251799813685248
   \<and> match_loop Migraine [''Dizziness'', ''Severe headache'', ''Blurred vision''] 0 \<noteq>
       Inr (max_possible_score Migraine)"
proof -
  have "(2195504818343117 / 1125899906842624 :: rat) \<noteq> 4391009636686233 / 2251799813685248"
    by simp
  then show ?thesis
    unfolding Migraine_match max_Migraine by (simp add: profile_keys insert_commute)
qed

text \<open>
  C5, amended.  In every order of the three symptoms the match score is at least the
  maximum possible score (equal to it in two of the six orders, above it in the other
  four), the confidence stored for \<^verbatim>\<open>Migraine\<close> is exactly 100, by the cap where the
  quotient is above 100, and the returned frame has \<^verbatim>\<open>Migraine\<close> with 100 in its first row.
\<close>

theorem migraine_confidence:
  assumes "sorts_descending sort_values"
    and "distinct S" and "set S = {''Severe headache'', ''Blurred vision'', ''Dizziness''}"
  shows "\<exists>match_score.
           match_loop Migraine S 0 = Inr match_score
         \<and> max_possible_score Migraine \<le> match_score
         \<and> probability Migraine S = Inr (Some 100)
         \<and> calculate_probability sort_values S =
             Inr [(''Migraine'', 100),
                  (''Anxiety Disorder'', 2932031007402667 / 140737488355328)]"
proof -
  have "case match_loop Migraine S 0 of
          Inl e \<Rightarrow> False
        | Inr match_score \<Rightarrow> max_possible_score Migraine \<le> match_score"
    using Migraine_arrangements[OF assms(2,3)]
    by (elim insertE emptyE; hypsubst; unfold Migraine_match max_Migraine; simp)
  then have "\<exists>match_score. match_loop Migraine S 0 = Inr match_score
          \<and> max_possible_score Migraine \<le> match_score"
    by (cases "match_loop Migraine S 0") simp_all
  moreover have "probability Migraine S = Inr (Some 100)"
    by (rule Migraine_selection_Migraine[OF assms(2,3)])
  ultimately show ?thesis using Migraine_selection_frame[OF assms] by blast
qed

theorem migraine_confidence_witness:
  "\<exists>match_score.
     match_loop Migraine [''Blurred vision'', ''Dizziness'', ''Severe headache''] 0 =
       Inr match_score
   \<and> max_possible_score Migraine \<le> match_score
   \<and> probability Migraine [''Blurred vision'', ''Dizziness'', ''Severe headache''] =
       Inr (Some 100)
   \<and> calculate_probability sort_values_stable
        [''Blurred vision'', ''Dizziness'', ''Severe headache''] =
       Inr [(''Migraine'', 100), (''Anxiety Disorder'', 2932031007402667 / 140737488355328)]"
  by (rule migraine_confidence) (simp_all add: insert_commute sorts_descending_stable)

section \<open>The cap\<close>


lemma Migraine_exact:
  "exact_match_score Migraine [''Blurred vision'', ''Dizziness'', ''Severe headache''] =
     8782019273372467 / 4503599627370496"
  "exact_max_score Migraine = 8782019273372467 / 4503599627370496"
  by (simp_all add: exact_match_score_def exact_max_score_def Migraine_eval)





section \<open>Rounding is monotone and close\<close>














section \<open>Adding a symptom\<close>


















end
